theory Spec2Isabelle
  imports Main "HOL-Library.Char_ord" "HOL-Library.List_Lexorder" "HOL-Library.AList"
begin

section \<open>Errors\<close>

text \<open>
  Every Go \<open>error\<close> value the driver can return. \<open>ErrNoRows\<close> is the sentinel
  \<open>sql.ErrNoRows\<close>; \<open>ErrSyntax\<close> and \<open>ErrRange\<close> are the sentinels of \<open>strconv\<close>, carried
  by a \<open>NumError\<close> (function name, input, cause); \<open>ErrDriver\<close> is any failure the
  database driver reports for a query; \<open>ErrScanCount\<close> is the error of \<open>Scan\<close> for a
  row with another number of cells than destinations (the two numbers), \<open>ErrScanColumn\<close>
  its error for the cell of the given index when that cell is NULL;
  \<open>ErrorString\<close> is \<open>errors.New\<close> and \<open>Wrap\<close> is \<open>errors.Wrap\<close>/\<open>errors.Wrapf\<close> with its
  message.
\<close>

datatype error =
    ErrNoRows
  | ErrSyntax
  | ErrRange
  | NumError string string error
  | ErrDriver string
  | ErrScanCount nat nat
  | ErrScanColumn nat
  | ErrorString string
  | Wrap error string

section \<open>Functions of the Go standard library the driver calls\<close>

text \<open>
  A Go string is a sequence of bytes, here a \<open>string\<close>. \<open>strings.Index\<close> and
  \<open>strings.LastIndex\<close> return the byte offset of the first (last) occurrence of the
  substring, or \<open>-1\<close>.
\<close>

definition HasPrefix :: "string \<Rightarrow> string \<Rightarrow> bool" where
  "HasPrefix s prefix = (take (length prefix) s = prefix)"

fun Index :: "string \<Rightarrow> string \<Rightarrow> int" where
  "Index [] substr = (if substr = [] then 0 else - 1)"
| "Index (c # s) substr =
    (if HasPrefix (c # s) substr then 0
     else (let i = Index s substr in if i = - 1 then - 1 else i + 1))"

fun LastIndex :: "string \<Rightarrow> string \<Rightarrow> int" where
  "LastIndex [] substr = (if substr = [] then 0 else - 1)"
| "LastIndex (c # s) substr =
    (let i = LastIndex s substr in
     if i \<noteq> - 1 then i + 1
     else if HasPrefix (c # s) substr then 0 else - 1)"

text \<open>
  \<open>strings.TrimLeft\<close>, \<open>strings.TrimRight\<close> and \<open>strings.Trim\<close> remove the leading
  (trailing, both) bytes that occur in the cutset. The driver's cutsets are ASCII, for
  which Go trims byte by byte.
\<close>

definition TrimLeft :: "string \<Rightarrow> string \<Rightarrow> string" where
  "TrimLeft s cutset = dropWhile (\<lambda>c. c \<in> set cutset) s"

definition TrimRight :: "string \<Rightarrow> string \<Rightarrow> string" where
  "TrimRight s cutset = rev (dropWhile (\<lambda>c. c \<in> set cutset) (rev s))"

definition Trim :: "string \<Rightarrow> string \<Rightarrow> string" where
  "Trim s cutset = TrimRight (TrimLeft s cutset) cutset"

text \<open>
  \<open>strings.TrimSpace\<close> removes leading and trailing white space as Unicode defines it.
  \<open>space_encodings\<close> lists the UTF-8 encodings of the code points \<open>unicode.IsSpace\<close>
  accepts: tab, line feed, vertical tab, form feed, carriage return, space, U+0085,
  U+00A0, U+1680, U+2000 to U+200A, U+2028, U+2029, U+202F, U+205F and U+3000.
\<close>

definition space_encodings :: "string list" where
  "space_encodings =
    [[CHR 0x09], [CHR 0x0A], [CHR 0x0B], [CHR 0x0C], [CHR 0x0D], [CHR 0x20],
     [CHR 0xC2, CHR 0x85], [CHR 0xC2, CHR 0xA0],
     [CHR 0xE1, CHR 0x9A, CHR 0x80],
     [CHR 0xE2, CHR 0x80, CHR 0x80], [CHR 0xE2, CHR 0x80, CHR 0x81],
     [CHR 0xE2, CHR 0x80, CHR 0x82], [CHR 0xE2, CHR 0x80, CHR 0x83],
     [CHR 0xE2, CHR 0x80, CHR 0x84], [CHR 0xE2, CHR 0x80, CHR 0x85],
     [CHR 0xE2, CHR 0x80, CHR 0x86], [CHR 0xE2, CHR 0x80, CHR 0x87],
     [CHR 0xE2, CHR 0x80, CHR 0x88], [CHR 0xE2, CHR 0x80, CHR 0x89],
     [CHR 0xE2, CHR 0x80, CHR 0x8A],
     [CHR 0xE2, CHR 0x80, CHR 0xA8], [CHR 0xE2, CHR 0x80, CHR 0xA9],
     [CHR 0xE2, CHR 0x80, CHR 0xAF],
     [CHR 0xE2, CHR 0x81, CHR 0x9F],
     [CHR 0xE3, CHR 0x80, CHR 0x80]]"

definition space_width :: "string list \<Rightarrow> string \<Rightarrow> nat" where
  "space_width encs s = (case find (HasPrefix s) encs of None \<Rightarrow> 0 | Some w \<Rightarrow> length w)"

fun trim_spaces :: "string list \<Rightarrow> string \<Rightarrow> string" where
  "trim_spaces encs [] = []"
| "trim_spaces encs (c # s) =
    (case space_width encs (c # s) of
       0 \<Rightarrow> c # s
     | Suc n \<Rightarrow> trim_spaces encs (drop n s))"

definition TrimSpace :: "string \<Rightarrow> string" where
  "TrimSpace s =
    rev (trim_spaces (map rev space_encodings) (rev (trim_spaces space_encodings s)))"

text \<open>
  \<open>strings.Split\<close> with a separator of one byte (the driver splits at commas only): the
  pieces between the separators, in order; a string without separator is its own single
  piece. \<open>strings.Join\<close> and \<open>strings.Repeat\<close> are its companions.
\<close>

fun Split :: "string \<Rightarrow> char \<Rightarrow> string list" where
  "Split [] sep = [[]]"
| "Split (c # s) sep =
    (if c = sep then [] # Split s sep
     else (case Split s sep of [] \<Rightarrow> [[c]] | x # xs \<Rightarrow> (c # x) # xs))"

fun Join :: "string list \<Rightarrow> string \<Rightarrow> string" where
  "Join [] sep = []"
| "Join [x] sep = x"
| "Join (x # y # xs) sep = x @ sep @ Join (y # xs) sep"

definition Repeat :: "string \<Rightarrow> nat \<Rightarrow> string" where
  "Repeat s count = concat (replicate count s)"

text \<open>
  \<open>strconv.Atoi\<close> is \<open>ParseInt(s, 10, 0)\<close> with an \<open>int\<close> of 64 bits: an optional sign,
  then \<open>ParseUint\<close> on the rest, which reads decimal digits into an unsigned 64-bit
  accumulator and reports a syntax error at the first other byte and a range error when
  the accumulator would overflow; then the range check of the signed result. (Atoi's fast
  path for short inputs returns the same values.)
\<close>

definition isDigit :: "char \<Rightarrow> bool" where
  "isDigit c = (CHR ''0'' \<le> c \<and> c \<le> CHR ''9'')"

definition digitVal :: "char \<Rightarrow> int" where
  "digitVal c = of_char c - of_char CHR ''0''"

fun ParseUint_loop :: "int \<Rightarrow> string \<Rightarrow> error + int" where
  "ParseUint_loop n [] = Inr n"
| "ParseUint_loop n (c # s) =
    (if \<not> isDigit c then Inl ErrSyntax
     else if n \<ge> (2 ^ 64 - 1) div 10 + 1 then Inl ErrRange
     else (let n1 = n * 10 + digitVal c in
           if n1 > 2 ^ 64 - 1 then Inl ErrRange else ParseUint_loop n1 s))"

definition ParseUint :: "string \<Rightarrow> error + int" where
  "ParseUint s = (if s = [] then Inl ErrSyntax else ParseUint_loop 0 s)"

definition ParseInt :: "string \<Rightarrow> error + int" where
  "ParseInt s =
    (case s of
       [] \<Rightarrow> Inl ErrSyntax
     | c # rest \<Rightarrow>
        (let neg = (c = CHR ''-'');
             digits = (if c = CHR ''+'' \<or> c = CHR ''-'' then rest else s)
         in case ParseUint digits of
              Inl err \<Rightarrow> Inl err
            | Inr un \<Rightarrow>
               if \<not> neg \<and> un \<ge> 2 ^ 63 then Inl ErrRange
               else if neg \<and> un > 2 ^ 63 then Inl ErrRange
               else Inr (if neg then - un else un)))"

definition Atoi :: "string \<Rightarrow> error + int" where
  "Atoi s = (case ParseInt s of Inl err \<Rightarrow> Inl (NumError ''Atoi'' s err) | Inr i \<Rightarrow> Inr i)"

text \<open>\<open>strconv.Itoa\<close> and \<open>strconv.FormatBool\<close>.\<close>

fun utoa :: "nat \<Rightarrow> string" where
  "utoa n =
    (if n < 10 then [''0123456789'' ! n]
     else utoa (n div 10) @ [''0123456789'' ! (n mod 10)])"

declare utoa.simps [simp del]

definition Itoa :: "int \<Rightarrow> string" where
  "Itoa i = (if i < 0 then CHR ''-'' # utoa (nat (- i)) else utoa (nat i))"

definition FormatBool :: "bool \<Rightarrow> string" where
  "FormatBool b = (if b then ''true'' else ''false'')"

text \<open>
  \<open>net/url\<close>: \<open>shouldEscape\<close> and \<open>escape\<close> in the two modes the driver reaches
  (\<open>encodeHost\<close> through \<open>URL.String\<close>, \<open>encodeQueryComponent\<close> through
  \<open>Values.Encode\<close>). Letters and digits are never escaped; a host keeps the sub-delimiters,
  the colon, brackets, angle brackets and the double quote; \<open>-\<close>, \<open>_\<close>, \<open>.\<close> and \<open>~\<close> are
  kept; every other byte becomes \<open>%XX\<close>, but a space in a query component becomes \<open>+\<close>.
\<close>

datatype encoding = encodeHost | encodeQueryComponent

definition inRange :: "char \<Rightarrow> char \<Rightarrow> char \<Rightarrow> bool" where
  "inRange lo hi c = (lo \<le> c \<and> c \<le> hi)"

definition isAlnum :: "char \<Rightarrow> bool" where
  "isAlnum c =
    (inRange CHR ''a'' CHR ''z'' c \<or> inRange CHR ''A'' CHR ''Z'' c \<or> inRange CHR ''0'' CHR ''9'' c)"

definition shouldEscape :: "char \<Rightarrow> encoding \<Rightarrow> bool" where
  "shouldEscape c mode =
    (if isAlnum c then False
     else if mode = encodeHost \<and> c \<in> set (''!$&()*+,;=:[]<>'' @ [CHR 0x27, CHR 0x22]) then False
     else if c \<in> set ''-_.~'' then False
     else True)"

definition upperhex :: string where
  "upperhex = ''0123456789ABCDEF''"

definition escape_byte :: "char \<Rightarrow> encoding \<Rightarrow> string" where
  "escape_byte c mode =
    (if c = CHR '' '' \<and> mode = encodeQueryComponent then ''+''
     else if shouldEscape c mode then
       [CHR ''%'', upperhex ! (of_char c div 16), upperhex ! (of_char c mod 16)]
     else [c])"

definition escape :: "string \<Rightarrow> encoding \<Rightarrow> string" where
  "escape s mode = concat (map (\<lambda>c. escape_byte c mode) s)"

definition QueryEscape :: "string \<Rightarrow> string" where
  "QueryEscape s = escape s encodeQueryComponent"

text \<open>
  \<open>url.Values\<close> maps a key to a list of values; it is an association list with one entry
  per key. \<open>Set\<close> replaces the values of a key by one value. \<open>Encode\<close> writes the pairs
  \<open>key=value\<close>, both escaped, sorted by key and joined by \<open>&\<close>.
\<close>

type_synonym Values = "(string \<times> string list) list"

definition Values_Set :: "Values \<Rightarrow> string \<Rightarrow> string \<Rightarrow> Values" where
  "Values_Set v key val = AList.update key [val] v"

definition Values_Encode :: "Values \<Rightarrow> string" where
  "Values_Encode v =
    Join (concat (map (\<lambda>k. map (\<lambda>x. QueryEscape k @ ''='' @ QueryEscape x)
                              (case map_of v k of None \<Rightarrow> [] | Some vs \<Rightarrow> vs))
                      (sort (map fst v)))) ''&''"

text \<open>
  \<open>url.URL\<close> with the three fields the driver fills (the others keep their zero value), and
  \<open>URL.String\<close> for such a value: the scheme and a colon, two slashes and the escaped host
  when there is a host, a question mark and the raw query when there is one.
\<close>

record URL =
  Scheme :: string
  Host :: string
  RawQuery :: string

definition URL_String :: "URL \<Rightarrow> string" where
  "URL_String u =
    (if Scheme u \<noteq> [] then Scheme u @ '':'' else []) @
    (if Scheme u \<noteq> [] \<or> URL.Host u \<noteq> [] then
       (if URL.Host u \<noteq> [] then ''//'' @ escape (URL.Host u) encodeHost else [])
     else []) @
    (if RawQuery u \<noteq> [] then ''?'' @ RawQuery u else [])"

text \<open>
  \<open>database/sql\<close>: the connection is the function that answers a query text and its
  arguments with an error or the rows of the result; a row is its cells, each a text or
  NULL. \<open>Scan\<close> into one, two or three \<open>string\<close> destinations fails when the row has another
  number of cells or a cell is NULL. \<open>QueryRow\<close> followed by \<open>Scan\<close> reports the query's
  error, \<open>sql.ErrNoRows\<close> for an empty result, and scans the first row otherwise. The
  driver never reads \<open>rows.Err\<close>, so an iteration that stops early is a shorter list of
  rows.
\<close>

type_synonym row = "string option list"

type_synonym DB = "string \<Rightarrow> string list \<Rightarrow> error + row list"

definition ScanString :: "nat \<Rightarrow> string option \<Rightarrow> error + string" where
  "ScanString i v = (case v of None \<Rightarrow> Inl (ErrScanColumn i) | Some s \<Rightarrow> Inr s)"

fun Scan1 :: "row \<Rightarrow> error + string" where
  "Scan1 [a] = ScanString 0 a"
| "Scan1 r = Inl (ErrScanCount (length r) 1)"

fun Scan2 :: "row \<Rightarrow> error + string \<times> string" where
  "Scan2 [a, b] =
    (case ScanString 0 a of
       Inl err \<Rightarrow> Inl err
     | Inr x \<Rightarrow> (case ScanString 1 b of Inl err \<Rightarrow> Inl err | Inr y \<Rightarrow> Inr (x, y)))"
| "Scan2 r = Inl (ErrScanCount (length r) 2)"

fun Scan3 :: "row \<Rightarrow> error + string \<times> string \<times> string" where
  "Scan3 [a, b, c] =
    (case ScanString 0 a of
       Inl err \<Rightarrow> Inl err
     | Inr x \<Rightarrow>
        (case ScanString 1 b of
           Inl err \<Rightarrow> Inl err
         | Inr y \<Rightarrow> (case ScanString 2 c of Inl err \<Rightarrow> Inl err | Inr z \<Rightarrow> Inr (x, y, z))))"
| "Scan3 r = Inl (ErrScanCount (length r) 3)"

definition QueryRow :: "DB \<Rightarrow> string \<Rightarrow> string list \<Rightarrow> error + row" where
  "QueryRow dbConn query args =
    (case dbConn query args of
       Inl err \<Rightarrow> Inl err
     | Inr [] \<Rightarrow> Inl ErrNoRows
     | Inr (r # rest) \<Rightarrow> Inr r)"

section \<open>Package-level state and data of the ClickHouse driver\<close>

text \<open>
  The driver lives in package \<open>drivers\<close>. Two package-level booleans matter for the type
  translation: \<open>UInt8AsBool\<close>, declared in the ClickHouse driver itself, and
  \<open>TinyintAsBool\<close>, which \<open>TranslateColumnType\<close> reads and which is declared by the MySQL
  driver of the same package. Both are fields of the record of globals that every
  function reading a global takes as its first argument.
\<close>

record Globals =
  UInt8AsBool :: bool
  TinyintAsBool :: bool

text \<open>
  Modelled from the spec: the declaration of \<open>bdb.Column\<close> is not part of the sources; the
  record has the five fields the driver reads or writes (name, translated type, normalized
  base type, raw catalog type, default expression).
\<close>

record Column =
  Name :: string
  Type :: string
  DBType :: string
  FullDBType :: string
  Default :: string

text \<open>
  Modelled from the spec: the declaration of \<open>bdb.PrimaryKey\<close> is not part of the sources
  either; a primary key is its name and the ordered names of its columns.
\<close>

record PrimaryKey =
  Name :: string
  Columns :: "string list"

record clickhouseEngine =
  Name :: string
  PartitioningKey :: string
  PrimaryKey :: "string list"
  Granularity :: int

record ClickhouseDriverConfig =
  Username :: string
  Password :: string
  Database :: string
  Host :: string
  Port :: int
  ReadTimeout :: int
  WriteTimeout :: int
  Nagle :: bool
  AltHosts :: "string list"
  ConnectionOpenStrategy :: string
  BlockSize :: int
  Debug :: bool
  Secure :: bool
  SkipVerify :: bool

section \<open>The connection string\<close>

text \<open>
  \<open>ClickhouseBuildQueryString_values\<close> is the value of \<open>q\<close> when the source reaches
  \<open>q.Encode()\<close>: one \<open>Set\<close> per statement of the source, in its order.
\<close>

definition ClickhouseBuildQueryString_values :: "ClickhouseDriverConfig \<Rightarrow> Values" where
  "ClickhouseBuildQueryString_values config =
    (let q = [];
         q = (if Username config \<noteq> [] then Values_Set q ''username'' (Username config) else q);
         q = (if Password config \<noteq> [] then Values_Set q ''password'' (Password config) else q);
         q = Values_Set q ''database'' (Database config);
         q = (if ReadTimeout config \<noteq> 0
              then Values_Set q ''read_timeout'' (Itoa (ReadTimeout config)) else q);
         q = (if WriteTimeout config \<noteq> 0
              then Values_Set q ''write_timeout'' (Itoa (WriteTimeout config)) else q);
         q = Values_Set q ''no_delay'' (FormatBool (\<not> Nagle config));
         q = (if length (AltHosts config) > 0
              then Values_Set q ''alt_hosts'' (Join (AltHosts config) '','') else q);
         q = (if ConnectionOpenStrategy config \<noteq> []
              then Values_Set q ''connection_open_strategy'' (ConnectionOpenStrategy config)
              else q);
         q = (if BlockSize config > 0
              then Values_Set q ''block_size'' (Itoa (BlockSize config)) else q);
         q = Values_Set q ''debug'' (FormatBool (Debug config))
     in q)"

definition ClickhouseBuildQueryString :: "ClickhouseDriverConfig \<Rightarrow> string" where
  "ClickhouseBuildQueryString config =
    URL_String \<lparr>Scheme = ''tcp'',
                URL.Host = ClickhouseDriverConfig.Host config @ '':'' @ Itoa (Port config),
                RawQuery = Values_Encode (ClickhouseBuildQueryString_values config)\<rparr>"

section \<open>Schema introspection\<close>

text \<open>
  \<open>TableNames_query\<close> is the query text and the argument list \<open>TableNames\<close> has built when
  it calls \<open>Query\<close>; \<open>TableNames_rows\<close> is its loop over the rows.
\<close>

definition TableNames_query ::
    "string \<Rightarrow> string list \<Rightarrow> string list \<Rightarrow> string \<times> string list" where
  "TableNames_query database whitelist blacklist =
    (let query = ''select name from system.tables where database = ? and database <> 'system'' @
                 [CHR 0x27];
         args = [database]
     in if length whitelist > 0 then
          (query @ '' and name in ('' @ drop 1 (Repeat '',?'' (length whitelist)) @ '');'',
           args @ whitelist)
        else if length blacklist > 0 then
          (query @ '' and name not in ('' @ drop 1 (Repeat '',?'' (length blacklist)) @ '');'',
           args @ blacklist)
        else (query, args))"

fun TableNames_rows :: "row list \<Rightarrow> string list \<Rightarrow> error + string list" where
  "TableNames_rows [] names = Inr names"
| "TableNames_rows (r # rows) names =
    (case Scan1 r of
       Inl err \<Rightarrow> Inl err
     | Inr name \<Rightarrow> TableNames_rows rows (names @ [name]))"

definition TableNames ::
    "DB \<Rightarrow> string \<Rightarrow> string list \<Rightarrow> string list \<Rightarrow> error + string list" where
  "TableNames dbConn database whitelist blacklist =
    (case TableNames_query database whitelist blacklist of
       (query, args) \<Rightarrow>
         (case dbConn query args of
            Inl err \<Rightarrow> Inl err
          | Inr rows \<Rightarrow> TableNames_rows rows []))"

text \<open>
  \<open>Columns\<close>: the query, then one column per row. The base type is the raw type cut at the
  offset of its first opening parenthesis when that offset is greater than zero.
\<close>

definition Columns_query :: string where
  "Columns_query =
    [CHR 0x0A, CHR 0x09] @ ''select name, type, default_expression'' @
    [CHR 0x0A, CHR 0x09, CHR 0x09] @ ''from system.columns'' @
    [CHR 0x0A, CHR 0x09] @ ''where table = ? and database = ?;'' @
    [CHR 0x0A, CHR 0x09]"

fun Columns_rows :: "string \<Rightarrow> row list \<Rightarrow> Column list \<Rightarrow> error + Column list" where
  "Columns_rows tableName [] columns = Inr columns"
| "Columns_rows tableName (r # rows) columns =
    (case Scan3 r of
       Inl err \<Rightarrow> Inl (Wrap err (''unable to scan for table '' @ tableName))
     | Inr (colName, fullColType, defaultValue) \<Rightarrow>
        (let idx = Index fullColType ''('';
             colType = (if idx > 0 then take (nat idx) fullColType else fullColType);
             column = \<lparr>Column.Name = colName, Type = [], DBType = colType,
                        FullDBType = fullColType, Default = defaultValue\<rparr>
         in Columns_rows tableName rows (columns @ [column])))"

definition Columns :: "DB \<Rightarrow> string \<Rightarrow> string \<Rightarrow> error + Column list" where
  "Columns dbConn database tableName =
    (case dbConn Columns_query [tableName, database] of
       Inl err \<Rightarrow> Inl err
     | Inr rows \<Rightarrow> Columns_rows tableName rows [])"

text \<open>
  \<open>parseEngine\<close>, statement by statement; the source reuses \<open>idx\<close> and \<open>params\<close>, the
  model rebinds them. Every slice is taken at an offset \<open>Index\<close> or \<open>LastIndex\<close> returned
  for the sliced string, so no slice is out of range.
\<close>

definition parseEngine :: "string \<Rightarrow> error + clickhouseEngine" where
  "parseEngine str =
    (let idx = Index str ''('' in
     if idx = - 1 then Inl (ErrorString ''open bracket not found'')
     else
       (let name = take (nat idx) str;
            params = Trim (drop (nat idx) str) ''() '';
            idx = Index params '','' in
        if idx = - 1 then Inl (ErrorString ''partitioning key not found'')
        else
          (let partitioningKey = take (nat idx) params;
               params = TrimLeft (drop (nat idx) params) '', '';
               idx = LastIndex params '','' in
           if idx = - 1 then Inl (ErrorString ''granularity key not found'')
           else
             (case Atoi (Trim (drop (nat idx) params) '', '') of
                Inl err \<Rightarrow> Inl (Wrap err ''parsing granularity failed'')
              | Inr granularity \<Rightarrow>
                 (let primary = Trim (take (nat idx) params) ''() '';
                      primaryKey = map TrimSpace (Split primary CHR '','')
                  in Inr \<lparr>clickhouseEngine.Name = name,
                            PartitioningKey = partitioningKey,
                            PrimaryKey = primaryKey,
                            Granularity = granularity\<rparr>)))))"

text \<open>
  \<open>PrimaryKeyInfo\<close> returns a pointer and an error: \<open>Inr None\<close> is \<open>(nil, nil)\<close>,
  \<open>Inr (Some pkey)\<close> is \<open>(pkey, nil)\<close> and \<open>Inl err\<close> is \<open>(nil, err)\<close>.
\<close>

definition PrimaryKeyInfo_query :: string where
  "PrimaryKeyInfo_query =
    [CHR 0x0A, CHR 0x09] @ ''select name, engine_full'' @
    [CHR 0x0A, CHR 0x09] @ ''from system.tables'' @
    [CHR 0x0A, CHR 0x09] @ ''where name = ? and database = ?;''"

definition PrimaryKeyInfo :: "DB \<Rightarrow> string \<Rightarrow> string \<Rightarrow> error + PrimaryKey option" where
  "PrimaryKeyInfo dbConn database table =
    (case (case QueryRow dbConn PrimaryKeyInfo_query [table, database] of
             Inl err \<Rightarrow> Inl err
           | Inr r \<Rightarrow> Scan2 r) of
       Inl err \<Rightarrow> (if err = ErrNoRows then Inr None else Inl err)
     | Inr (pkeyName, engineFull) \<Rightarrow>
        (case parseEngine engineFull of
           Inl err \<Rightarrow> Inl (Wrap err (''bad engine=`'' @ engineFull @ ''`''))
         | Inr engine \<Rightarrow>
            Inr (Some \<lparr>PrimaryKey.Name = pkeyName,
                       PrimaryKey.Columns = clickhouseEngine.PrimaryKey engine\<rparr>)))"

section \<open>Type translation\<close>

text \<open>The \<open>switch c.DBType\<close> of \<open>TranslateColumnType\<close>, case by case in the source's order.\<close>

definition TranslateColumnType :: "Globals \<Rightarrow> Column \<Rightarrow> Column" where
  "TranslateColumnType g c =
    (if DBType c = ''UInt8'' then
       (if TinyintAsBool g then c\<lparr>Type := ''bool''\<rparr> else c\<lparr>Type := ''uint8''\<rparr>)
     else if DBType c = ''UInt16'' then c\<lparr>Type := ''uint16''\<rparr>
     else if DBType c = ''UInt32'' then c\<lparr>Type := ''uint32''\<rparr>
     else if DBType c = ''UInt64'' then c\<lparr>Type := ''uint64''\<rparr>
     else if DBType c = ''Int8'' then c\<lparr>Type := ''int8''\<rparr>
     else if DBType c = ''Int16'' then c\<lparr>Type := ''int16''\<rparr>
     else if DBType c = ''Int32'' then c\<lparr>Type := ''int32''\<rparr>
     else if DBType c = ''Int64'' then c\<lparr>Type := ''int64''\<rparr>
     else if DBType c = ''Float32'' then c\<lparr>Type := ''float32''\<rparr>
     else if DBType c = ''Float64'' then c\<lparr>Type := ''float64''\<rparr>
     else if DBType c = ''Date'' \<or> DBType c = ''DateTime'' then c\<lparr>Type := ''time.Time''\<rparr>
     else if DBType c = ''FixedString'' then c\<lparr>Type := ''types.FixedString''\<rparr>
     else if DBType c = ''String'' then c\<lparr>Type := ''string''\<rparr>
     else c\<lparr>Type := ''[]byte''\<rparr>)"

section \<open>Notions of the specification\<close>

text \<open>The set of base types the specification calls recognized.\<close>

definition spec_recognized_types :: "string set" where
  "spec_recognized_types =
    {''UInt8'', ''UInt16'', ''UInt32'', ''UInt64'', ''Int8'', ''Int16'', ''Int32'', ''Int64'',
     ''Float32'', ''Float64'', ''Date'', ''DateTime'', ''FixedString'', ''String''}"

text \<open>
  The base type the specification describes: the raw type truncated at its first opening
  parenthesis, and the raw type itself when it has none. \<open>spec_normalized\<close> says that a
  column carries this base type. \<open>normalized_unless_leading_paren\<close> is the weaker
  property: a raw type that begins with the parenthesis is kept whole.
\<close>

definition spec_base_type :: "string \<Rightarrow> string" where
  "spec_base_type raw = takeWhile (\<lambda>x. x \<noteq> CHR ''('') raw"

definition spec_normalized :: "Column \<Rightarrow> bool" where
  "spec_normalized col = (DBType col = spec_base_type (FullDBType col))"

definition normalized_unless_leading_paren :: "Column \<Rightarrow> bool" where
  "normalized_unless_leading_paren col =
    (DBType col =
      (if take 1 (FullDBType col) = ''('' then FullDBType col
       else spec_base_type (FullDBType col)))"

text \<open>
  The parenthesized body of an engine string is the text between its first opening
  parenthesis and the closing parenthesis that matches it (the rest of the string when
  none does): \<open>upto_close\<close> copies the text up to the closing parenthesis at nesting
  depth zero. The remainder of an engine string is all its text from the first opening
  parenthesis to the end of the string, without the parentheses and spaces at both ends;
  it goes on after the body when text follows the closing parenthesis. The trailing field
  of a text is what follows its last comma, without the spaces around it (the whole text
  when it has no comma).
\<close>

fun upto_close :: "nat \<Rightarrow> string \<Rightarrow> string" where
  "upto_close depth [] = []"
| "upto_close depth (c # s) =
    (if c = CHR ''('' then c # upto_close (Suc depth) s
     else if c = CHR '')'' then
       (case depth of 0 \<Rightarrow> [] | Suc d \<Rightarrow> c # upto_close d s)
     else c # upto_close depth s)"

definition spec_parenthesized_body :: "string \<Rightarrow> string" where
  "spec_parenthesized_body str = upto_close 0 (drop 1 (dropWhile (\<lambda>x. x \<noteq> CHR ''('') str))"

definition spec_remainder :: "string \<Rightarrow> string" where
  "spec_remainder str = Trim (dropWhile (\<lambda>x. x \<noteq> CHR ''('') str) ''() ''"

definition spec_trailing_field :: "string \<Rightarrow> string" where
  "spec_trailing_field body = Trim (rev (takeWhile (\<lambda>x. x \<noteq> CHR '','') (rev body))) '' ''"

text \<open>
  The query component of a URL is what follows its first question mark; its parameters are
  the pieces between ampersands, each a key and a value separated by the first equals
  sign (both as written in the URL, escaped).
\<close>

definition query_component :: "string \<Rightarrow> string" where
  "query_component url = drop 1 (dropWhile (\<lambda>x. x \<noteq> CHR ''?'') url)"

definition query_param :: "string \<Rightarrow> string \<times> string" where
  "query_param p =
    (takeWhile (\<lambda>x. x \<noteq> CHR ''='') p, drop 1 (dropWhile (\<lambda>x. x \<noteq> CHR ''='') p))"

definition query_params :: "string \<Rightarrow> (string \<times> string) list" where
  "query_params url = map query_param (Split (query_component url) CHR ''&'')"

text \<open>A configuration of which only the database, the host and the port are filled in.\<close>

definition example_config :: ClickhouseDriverConfig where
  "example_config =
    \<lparr>Username = [], Password = [], Database = ''my db'',
     ClickhouseDriverConfig.Host = ''localhost'', Port = 9000,
     ReadTimeout = 0, WriteTimeout = 0, Nagle = True, AltHosts = [],
     ConnectionOpenStrategy = [], BlockSize = 0, Debug = False, Secure = False,
     SkipVerify = False\<rparr>"

section \<open>Auxiliary notions of the proofs\<close>

text \<open>
  The keys \<open>ClickhouseBuildQueryString\<close> can set; the values it builds have one entry for
  each key present, with one value. \<open>Set_when\<close> is a guarded \<open>Set\<close>, and \<open>Encode_pieces\<close>
  the pairs \<open>Encode\<close> joins.
\<close>

definition config_keys :: "string list" where
  "config_keys =
    [''alt_hosts'', ''block_size'', ''connection_open_strategy'', ''database'', ''debug'',
     ''no_delay'', ''password'', ''read_timeout'', ''username'', ''write_timeout'']"

definition single_valued :: "Values \<Rightarrow> bool" where
  "single_valued v =
    (distinct (map fst v) \<and> (\<forall>(k, vs) \<in> set v. k \<in> set config_keys \<and> length vs = 1))"

definition Set_when :: "bool \<Rightarrow> Values \<Rightarrow> string \<Rightarrow> string \<Rightarrow> Values" where
  "Set_when b v key val = (if b then Values_Set v key val else v)"

definition Encode_pieces :: "Values \<Rightarrow> string list" where
  "Encode_pieces v =
    concat (map (\<lambda>k. map (\<lambda>x. QueryEscape k @ ''='' @ QueryEscape x)
                          (case map_of v k of None \<Rightarrow> [] | Some vs \<Rightarrow> vs))
                (sort (map fst v)))"

section \<open>Properties of the type translation\<close>

text \<open>
  Claim C1 says that the translation of a \<open>UInt8\<close> column follows the flag \<open>UInt8AsBool\<close>.
  The code reads \<open>TinyintAsBool\<close> instead: with \<open>UInt8AsBool\<close> set and \<open>TinyintAsBool\<close>
  clear, a \<open>UInt8\<close> column is translated to \<open>uint8\<close>, not to \<open>bool\<close>.
\<close>

theorem TranslateColumnType_UInt8_flag_ignored:
  "Type (TranslateColumnType \<lparr>UInt8AsBool = True, TinyintAsBool = False\<rparr>
      \<lparr>Column.Name = ''flag'', Type = [], DBType = ''UInt8'', FullDBType = ''UInt8'', Default = []\<rparr>)
    = ''uint8''"
  by (simp add: TranslateColumnType_def)

text \<open>
  Claim C5: the translation is total. It returns a column for every input (its result type
  has no error), the translated type is never the empty string, and a base type outside
  the recognized set is translated to \<open>[]byte\<close>. The other fields are returned unchanged.
\<close>

theorem TranslateColumnType_total:
  "Type (TranslateColumnType g c) \<noteq> [] \<and>
   (DBType c \<notin> spec_recognized_types \<longrightarrow> Type (TranslateColumnType g c) = ''[]byte'') \<and>
   TranslateColumnType g c = c\<lparr>Type := Type (TranslateColumnType g c)\<rparr>"
  by (simp add: TranslateColumnType_def spec_recognized_types_def)

theorem TranslateColumnType_total_witness:
  "Type (TranslateColumnType \<lparr>UInt8AsBool = False, TinyintAsBool = False\<rparr>
      \<lparr>Column.Name = ''ids'', Type = [], DBType = ''Array'', FullDBType = ''Array(UInt8)'', Default = []\<rparr>)
    = ''[]byte'' \<and> ''Array'' \<notin> spec_recognized_types"
proof -
  have out: "''Array'' \<notin> spec_recognized_types"
    by (simp add: spec_recognized_types_def)
  show ?thesis
    using out TranslateColumnType_total
      [of "\<lparr>UInt8AsBool = False, TinyintAsBool = False\<rparr>"
          "\<lparr>Column.Name = ''ids'', Type = [], DBType = ''Array'', FullDBType = ''Array(UInt8)'', Default = []\<rparr>"]
    by simp
qed

text \<open>
  Claim C10: the exported flag \<open>UInt8AsBool\<close> has no effect on the translation. Two runs
  that differ only in that flag (the rest of the globals, \<open>TinyintAsBool\<close> included, and
  the input column being equal) return the same column.
\<close>

theorem TranslateColumnType_independent_of_UInt8AsBool:
  "TranslateColumnType (g\<lparr>UInt8AsBool := True\<rparr>) c = TranslateColumnType (g\<lparr>UInt8AsBool := False\<rparr>) c"
  by (simp add: TranslateColumnType_def)

section \<open>Facts about the string functions\<close>

lemma Index_char:
  "Index s [c] = (if c \<in> set s then int (length (takeWhile (\<lambda>x. x \<noteq> c) s)) else - 1)"
  by (induction s) (auto simp: HasPrefix_def Let_def)

lemma take_Index_char:
  "0 < Index s [c] \<Longrightarrow> take (nat (Index s [c])) s = takeWhile (\<lambda>x. x \<noteq> c) s"
  by (simp add: Index_char takeWhile_eq_take [symmetric] split: if_splits)

lemma Index_char_not_pos:
  "\<not> 0 < Index s [c] \<Longrightarrow> take 1 s = [c] \<or> c \<notin> set s"
  by (cases s) (auto simp: Index_char split: if_splits)

lemma Index_char_pos:
  "0 < Index s [c] \<Longrightarrow> take 1 s \<noteq> [c]"
  by (cases s) (auto simp: Index_char split: if_splits)

lemma takeWhile_absent:
  "c \<notin> set s \<Longrightarrow> takeWhile (\<lambda>x. x \<noteq> c) s = s"
  by (induction s) auto

lemma Index_char_absent: "Index s [c] = - 1 \<longleftrightarrow> c \<notin> set s"
  by (simp add: Index_char)

lemma drop_Index_char:
  "c \<in> set s \<Longrightarrow> drop (nat (Index s [c])) s = dropWhile (\<lambda>x. x \<noteq> c) s"
  by (simp add: Index_char dropWhile_eq_drop [symmetric])

lemma LastIndex_char_absent: "LastIndex s [c] = - 1 \<longleftrightarrow> c \<notin> set s"
proof (induction s)
  case Nil
  show ?case by simp
next
  case (Cons a s)
  show ?case
  proof (cases "LastIndex s [c] = - 1")
    case True
    with Cons show ?thesis by (auto simp: HasPrefix_def)
  next
    case False
    have "- 1 \<le> LastIndex s [c]"
      by (induction s) (auto simp: Let_def)
    with False have "LastIndex s [c] + 1 \<noteq> - 1" by linarith
    with False Cons show ?thesis by (auto simp: Let_def)
  qed
qed

lemma takeWhile_until:
  "c \<notin> set xs \<Longrightarrow> takeWhile (\<lambda>x. x \<noteq> c) (xs @ c # ys) = xs"
  by (induction xs) auto

lemma drop_LastIndex_char:
  "c \<in> set s \<Longrightarrow>
   0 \<le> LastIndex s [c] \<and>
   drop (nat (LastIndex s [c])) s = c # rev (takeWhile (\<lambda>x. x \<noteq> c) (rev s))"
proof (induction s)
  case Nil
  then show ?case by simp
next
  case (Cons a s)
  show ?case
  proof (cases "c \<in> set s")
    case True
    from Cons.IH [OF True] have i: "0 \<le> LastIndex s [c]"
      and d: "drop (nat (LastIndex s [c])) s = c # rev (takeWhile (\<lambda>x. x \<noteq> c) (rev s))"
      by simp_all
    from i have ne: "LastIndex s [c] \<noteq> - 1" by simp
    have n: "nat (LastIndex s [c] + 1) = Suc (nat (LastIndex s [c]))" using i by simp
    have tw: "takeWhile (\<lambda>x. x \<noteq> c) (rev s @ [a]) = takeWhile (\<lambda>x. x \<noteq> c) (rev s)"
      using True by (simp add: takeWhile_append1)
    show ?thesis using ne i d n tw by (simp add: Let_def)
  next
    case False
    with Cons.prems have ac: "a = c" by simp
    from False have li: "LastIndex s [c] = - 1" by (simp add: LastIndex_char_absent)
    have tw: "takeWhile (\<lambda>x. x \<noteq> c) (rev s @ [c]) = rev s"
      using False takeWhile_until [of c "rev s" "[]"] by simp
    show ?thesis using ac li tw by (simp add: HasPrefix_def)
  qed
qed

lemma dropWhile_cutset_absent:
  "c \<notin> set xs \<Longrightarrow>
   dropWhile (\<lambda>x. x \<in> set [c, d]) xs = dropWhile (\<lambda>x. x \<in> set [d]) xs"
  by (induction xs) auto

lemma Trim_comma_field:
  assumes "CHR '','' \<notin> set a"
  shows "Trim (CHR '','' # a) '', '' = Trim a '' ''"
proof -
  let ?l = "dropWhile (\<lambda>x. x \<in> set '' '') a"
  have l: "TrimLeft (CHR '','' # a) '', '' = ?l"
    using dropWhile_cutset_absent [OF assms, of "CHR '' ''"] by (simp add: TrimLeft_def)
  have "CHR '','' \<notin> set (rev ?l)"
    using assms set_dropWhileD [of "CHR '',''" _ a] by auto
  from dropWhile_cutset_absent [OF this, of "CHR '' ''"]
  have "TrimRight ?l '', '' = TrimRight ?l '' ''"
    by (simp add: TrimRight_def)
  with l show ?thesis by (simp add: Trim_def TrimLeft_def)
qed

lemma dropWhile_until:
  "c \<notin> set xs \<Longrightarrow> dropWhile (\<lambda>x. x \<noteq> c) (xs @ c # ys) = c # ys"
  by (induction xs) auto

lemma Split_no_sep: "sep \<notin> set x \<Longrightarrow> Split x sep = [x]"
  by (induction x) auto

lemma Split_append_sep: "sep \<notin> set x \<Longrightarrow> Split (x @ sep # rest) sep = x # Split rest sep"
  by (induction x) auto

lemma Split_Join:
  "xs \<noteq> [] \<Longrightarrow> \<forall>x \<in> set xs. sep \<notin> set x \<Longrightarrow> Split (Join xs [sep]) sep = xs"
proof (induction xs "[sep]" rule: Join.induct)
  case 1
  then show ?case by simp
next
  case (2 x)
  then show ?case by (simp add: Split_no_sep)
next
  case (3 x y xs)
  then show ?case by (simp add: Split_append_sep)
qed

lemma Join_nonempty: "x \<in> set xs \<Longrightarrow> x \<noteq> [] \<Longrightarrow> Join xs sep \<noteq> []"
  by (induction xs sep rule: Join.induct) auto

lemmas string_eval =
  HasPrefix_def TrimLeft_def TrimRight_def Trim_def TrimSpace_def space_width_def
  space_encodings_def Atoi_def ParseInt_def ParseUint_def isDigit_def digitVal_def
  less_eq_char_def

section \<open>Properties of the engine parser\<close>

text \<open>
  Claim C2: parsing \<open>MergeTree(EventDate, (CounterID, EventDate), 8192)\<close> succeeds with
  engine name \<open>MergeTree\<close>, partitioning key \<open>EventDate\<close>, primary-key columns
  \<open>CounterID\<close>, \<open>EventDate\<close> in that order, and granularity 8192.
\<close>

theorem parseEngine_MergeTree_example:
  "parseEngine ''MergeTree(EventDate, (CounterID, EventDate), 8192)'' =
     Inr \<lparr>clickhouseEngine.Name = ''MergeTree'',
          PartitioningKey = ''EventDate'',
          PrimaryKey = [''CounterID'', ''EventDate''],
          Granularity = 8192\<rparr>"
  by (simp add: parseEngine_def string_eval)

lemma parseEngine_success_shape:
  assumes ok: "parseEngine str = Inr e"
  shows "CHR ''('' \<in> set str \<and> CHR '','' \<in> set (spec_remainder str) \<and>
         Atoi (spec_trailing_field (spec_remainder str)) = Inr (Granularity e)"
proof -
  let ?P = "\<lambda>x. x \<noteq> CHR '',''"
  have paren: "CHR ''('' \<in> set str"
  proof (rule ccontr)
    assume "CHR ''('' \<notin> set str"
    then have "Index str ''('' = - 1" by (simp add: Index_char_absent)
    with ok show False by (simp add: parseEngine_def)
  qed
  then have i1: "Index str ''('' \<noteq> - 1" by (simp add: Index_char_absent)
  define params where "params = Trim (drop (nat (Index str ''('')) str) ''() ''"
  have rem: "params = spec_remainder str"
    using paren by (simp add: params_def spec_remainder_def drop_Index_char)
  have comma: "CHR '','' \<in> set params"
  proof (rule ccontr)
    assume "CHR '','' \<notin> set params"
    then have "Index params '','' = - 1" by (simp add: Index_char_absent)
    with ok i1 show False by (simp add: parseEngine_def params_def Let_def)
  qed
  then have i2: "Index params '','' \<noteq> - 1" by (simp add: Index_char_absent)
  define rest where "rest = TrimLeft (drop (nat (Index params '','')) params) '', ''"
  have comma2: "CHR '','' \<in> set rest"
  proof (rule ccontr)
    assume "CHR '','' \<notin> set rest"
    then have "LastIndex rest '','' = - 1" by (simp add: LastIndex_char_absent)
    with ok i1 i2 show False
      by (simp add: parseEngine_def params_def [symmetric] rest_def [symmetric] Let_def)
  qed
  then have i3: "LastIndex rest '','' \<noteq> - 1" by (simp add: LastIndex_char_absent)
  have atoi: "Atoi (Trim (drop (nat (LastIndex rest '','')) rest) '', '') = Inr (Granularity e)"
    using ok i1 i2 i3
    by (auto simp: parseEngine_def params_def [symmetric] rest_def [symmetric] Let_def
          split: sum.splits)
  define pre where
    "pre = take (nat (Index params '','')) params @
           takeWhile (\<lambda>c. c \<in> set '', '') (drop (nat (Index params '','')) params)"
  have split: "params = pre @ rest"
    unfolding pre_def rest_def TrimLeft_def by simp
  define field where "field = rev (takeWhile ?P (rev rest))"
  have "takeWhile ?P (rev rest @ rev pre) = takeWhile ?P (rev rest)"
    using comma2 by (simp add: takeWhile_append1 [of "CHR '',''"])
  then have same: "rev (takeWhile ?P (rev params)) = field"
    by (simp add: split field_def)
  have nocomma: "CHR '','' \<notin> set field"
    using set_takeWhileD [of "CHR '',''" ?P "rev rest"] by (auto simp: field_def)
  have "drop (nat (LastIndex rest '','')) rest = CHR '','' # field"
    using drop_LastIndex_char [OF comma2] by (simp add: field_def)
  with atoi Trim_comma_field [OF nocomma]
  have "Atoi (Trim field '' '') = Inr (Granularity e)" by simp
  then have "Atoi (spec_trailing_field params) = Inr (Granularity e)"
    by (simp add: spec_trailing_field_def same)
  with paren comma rem show ?thesis by simp
qed

text \<open>
  Claim C3 says that \<open>parseEngine\<close> returns an error for every string without an opening
  parenthesis, for every string whose parenthesized body has no comma, and for every
  string whose trailing field after the last comma of the body is no decimal integer.
  The parser never looks for the closing parenthesis: it reads on to the end of the
  string. In \<open>M(a), b, 5\<close> the body \<open>a\<close> has no comma, and in \<open>M(a, b, x), 7\<close> the trailing
  field of the body is \<open>x\<close>; both strings are parsed into an engine.
\<close>

theorem parseEngine_errors_counterexample:
  "spec_parenthesized_body ''M(a), b, 5'' = ''a'' \<and> CHR '','' \<notin> set ''a'' \<and>
   parseEngine ''M(a), b, 5'' =
     Inr \<lparr>clickhouseEngine.Name = ''M'', PartitioningKey = ''a)'', PrimaryKey = [''b''],
          Granularity = 5\<rparr> \<and>
   spec_parenthesized_body ''M(a, b, x), 7'' = ''a, b, x'' \<and>
   spec_trailing_field ''a, b, x'' = ''x'' \<and>
   Atoi ''x'' = Inl (NumError ''Atoi'' ''x'' ErrSyntax) \<and>
   parseEngine ''M(a, b, x), 7'' =
     Inr \<lparr>clickhouseEngine.Name = ''M'', PartitioningKey = ''a'', PrimaryKey = [''b'', ''x''],
          Granularity = 7\<rparr>"
  by (simp add: parseEngine_def spec_parenthesized_body_def spec_trailing_field_def string_eval)

text \<open>
  Claim C3 as amended: \<open>parseEngine\<close> returns an error, and so no engine, for every string
  without an opening parenthesis, for every string whose remainder (all the text from the
  first opening parenthesis to the end of the string, without the parentheses and spaces
  at both ends) has no comma, and for every string whose trailing field after the last
  comma of that remainder, without the spaces around it, is not accepted by \<open>Atoi\<close> as a
  decimal integer.
\<close>

theorem parseEngine_errors:
  "(CHR ''('' \<notin> set str \<longrightarrow> parseEngine str = Inl (ErrorString ''open bracket not found'')) \<and>
   (CHR ''('' \<in> set str \<and> CHR '','' \<notin> set (spec_remainder str) \<longrightarrow>
      parseEngine str = Inl (ErrorString ''partitioning key not found'')) \<and>
   ((\<exists>err. Atoi (spec_trailing_field (spec_remainder str)) = Inl err) \<longrightarrow>
      (\<exists>err. parseEngine str = Inl err))"
proof (intro conjI impI)
  assume "CHR ''('' \<notin> set str"
  then show "parseEngine str = Inl (ErrorString ''open bracket not found'')"
    by (simp add: parseEngine_def Index_char_absent)
next
  assume a: "CHR ''('' \<in> set str \<and> CHR '','' \<notin> set (spec_remainder str)"
  then have "Index str ''('' \<noteq> - 1" by (simp add: Index_char_absent)
  moreover from a have "Index (Trim (drop (nat (Index str ''('')) str) ''() '') '','' = - 1"
    by (simp add: Index_char_absent spec_remainder_def drop_Index_char)
  ultimately show "parseEngine str = Inl (ErrorString ''partitioning key not found'')"
    by (simp add: parseEngine_def Let_def)
next
  assume "\<exists>err. Atoi (spec_trailing_field (spec_remainder str)) = Inl err"
  then obtain err where bad: "Atoi (spec_trailing_field (spec_remainder str)) = Inl err" ..
  show "\<exists>err. parseEngine str = Inl err"
  proof (cases "parseEngine str")
    case (Inl e)
    then show ?thesis by blast
  next
    case (Inr e)
    from parseEngine_success_shape [OF Inr] bad show ?thesis by simp
  qed
qed

theorem parseEngine_errors_witness:
  "CHR ''('' \<notin> set ''Log'' \<and>
   parseEngine ''Log'' = Inl (ErrorString ''open bracket not found'') \<and>
   CHR ''('' \<in> set ''Memory()'' \<and> CHR '','' \<notin> set (spec_remainder ''Memory()'') \<and>
   parseEngine ''Memory()'' = Inl (ErrorString ''partitioning key not found'') \<and>
   spec_trailing_field (spec_remainder ''MergeTree(EventDate, (CounterID, EventDate), fine)'') = ''fine'' \<and>
   Atoi ''fine'' = Inl (NumError ''Atoi'' ''fine'' ErrSyntax) \<and>
   parseEngine ''MergeTree(EventDate, (CounterID, EventDate), fine)'' =
     Inl (Wrap (NumError ''Atoi'' ''fine'' ErrSyntax) ''parsing granularity failed'')"
  using parseEngine_errors [of "''Log''"] parseEngine_errors [of "''Memory()''"]
    parseEngine_errors [of "''MergeTree(EventDate, (CounterID, EventDate), fine)''"]
  by (simp add: parseEngine_def spec_remainder_def spec_trailing_field_def string_eval)

section \<open>Properties of the schema introspection\<close>

lemma normalized_unless_leading_paren_step:
  "normalized_unless_leading_paren
     \<lparr>Column.Name = n, Type = [],
      DBType = (if Index raw ''('' > 0 then take (nat (Index raw ''('')) raw else raw),
      FullDBType = raw, Default = d\<rparr>"
proof (cases "0 < Index raw ''(''")
  case True
  then show ?thesis
    using take_Index_char [of raw "CHR ''(''"] Index_char_pos [of raw "CHR ''(''"]
    by (simp add: normalized_unless_leading_paren_def spec_base_type_def)
next
  case False
  then show ?thesis
    using Index_char_not_pos [of raw "CHR ''(''"]
    by (auto simp: normalized_unless_leading_paren_def spec_base_type_def takeWhile_absent)
qed

lemma Columns_rows_normalized:
  "Columns_rows tableName rows acc = Inr cols \<Longrightarrow>
   \<forall>c \<in> set acc. normalized_unless_leading_paren c \<Longrightarrow>
   \<forall>c \<in> set cols. normalized_unless_leading_paren c"
proof (induction rows arbitrary: acc)
  case Nil
  then show ?case by simp
next
  case (Cons r rows)
  show ?case
  proof (cases "Scan3 r")
    case (Inl err)
    with Cons.prems show ?thesis by simp
  next
    case (Inr t)
    obtain n raw d where t: "t = (n, raw, d)" by (cases t) auto
    let ?col = "\<lparr>Column.Name = n, Type = [],
      DBType = (if Index raw ''('' > 0 then take (nat (Index raw ''('')) raw else raw),
      FullDBType = raw, Default = d\<rparr>"
    from Cons.prems(1) Inr t
    have run: "Columns_rows tableName rows (acc @ [?col]) = Inr cols"
      by (simp add: Let_def)
    have "\<forall>c \<in> set (acc @ [?col]). normalized_unless_leading_paren c"
      using Cons.prems(2) normalized_unless_leading_paren_step [of n raw d] by auto
    from Cons.IH [OF run this] show ?thesis .
  qed
qed

text \<open>
  Claim C4 says that every column \<open>Columns\<close> returns has its raw type truncated at the first
  opening parenthesis as base type. The code truncates only when the offset of that
  parenthesis is greater than zero: a raw type that begins with the parenthesis keeps its
  whole text as base type, where the claim asks for the empty string.
\<close>

theorem Columns_base_type_counterexample:
  "Columns (\<lambda>query args. Inr [[Some ''pair'', Some ''(x)'', Some []]]) ''default'' ''visits'' =
     Inr [\<lparr>Column.Name = ''pair'', Type = [], DBType = ''(x)'', FullDBType = ''(x)'',
           Default = []\<rparr>] \<and>
   CHR ''('' \<in> set ''(x)'' \<and>
   \<not> spec_normalized
       \<lparr>Column.Name = ''pair'', Type = [], DBType = ''(x)'', FullDBType = ''(x)'',
        Default = []\<rparr>"
  by (simp add: Columns_def ScanString_def HasPrefix_def spec_normalized_def spec_base_type_def)

text \<open>
  Claim C4 as amended: every column \<open>Columns\<close> returns has as base type its raw type
  truncated at the first opening parenthesis (the raw type itself when it has none),
  unless the raw type begins with the parenthesis, and then the base type is the raw type.
  In particular the raw type \<open>FixedString(16)\<close> has the base type \<open>FixedString\<close>.
\<close>

theorem Columns_base_type:
  "Columns dbConn database tableName = Inr cols \<Longrightarrow> col \<in> set cols \<Longrightarrow>
   normalized_unless_leading_paren col \<and>
   (FullDBType col = ''FixedString(16)'' \<longrightarrow> DBType col = ''FixedString'')"
proof -
  assume run: "Columns dbConn database tableName = Inr cols" and mem: "col \<in> set cols"
  from run obtain rows where "Columns_rows tableName rows [] = Inr cols"
    by (auto simp: Columns_def split: sum.splits)
  from Columns_rows_normalized [OF this] mem
  have n: "normalized_unless_leading_paren col" by simp
  moreover have "FullDBType col = ''FixedString(16)'' \<longrightarrow> DBType col = ''FixedString''"
    using n by (simp add: normalized_unless_leading_paren_def spec_base_type_def)
  ultimately show ?thesis by simp
qed

theorem Columns_base_type_witness:
  "Columns (\<lambda>query args. Inr [[Some ''hash'', Some ''FixedString(16)'', Some []]])
      ''default'' ''visits'' =
     Inr [\<lparr>Column.Name = ''hash'', Type = [], DBType = ''FixedString'',
           FullDBType = ''FixedString(16)'', Default = []\<rparr>] \<and>
   normalized_unless_leading_paren
     \<lparr>Column.Name = ''hash'', Type = [], DBType = ''FixedString'',
      FullDBType = ''FixedString(16)'', Default = []\<rparr>"
proof -
  have run:
    "Columns (\<lambda>query args. Inr [[Some ''hash'', Some ''FixedString(16)'', Some []]])
        ''default'' ''visits'' =
       Inr [\<lparr>Column.Name = ''hash'', Type = [], DBType = ''FixedString'',
             FullDBType = ''FixedString(16)'', Default = []\<rparr>]"
    by (simp add: Columns_def ScanString_def HasPrefix_def)
  show ?thesis
    using run Columns_base_type
      [OF run, of "\<lparr>Column.Name = ''hash'', Type = [], DBType = ''FixedString'',
                    FullDBType = ''FixedString(16)'', Default = []\<rparr>"]
    by simp
qed

text \<open>
  Claim C6 says that with a non-empty whitelist and a non-empty blacklist \<open>TableNames\<close>
  builds the query and the arguments of the whitelist alone, and that no blacklist name
  occurs in them. The last part fails for a name that is on both lists: it is an argument
  of the query, as a whitelist name.
\<close>

theorem TableNames_blacklist_name_counterexample:
  "[''visits''] \<noteq> [] \<and> ''visits'' \<in> set [''visits''] \<and>
   ''visits'' \<in> set (snd (TableNames_query ''default'' [''visits''] [''visits'']))"
  by (simp add: TableNames_query_def)

text \<open>
  Claim C6 as amended: for every database name, non-empty whitelist and non-empty
  blacklist, the query text and the arguments \<open>TableNames\<close> builds (and so its result on any
  connection) are those it builds for the same whitelist and an empty blacklist. The query
  text is the fixed text with one placeholder for each whitelist name, the arguments are
  the database name followed by the whitelist, and a blacklist name that is neither the
  database name nor a whitelist name is not among the arguments.
\<close>

theorem TableNames_whitelist_only:
  "whitelist \<noteq> [] \<Longrightarrow> blacklist \<noteq> [] \<Longrightarrow>
   TableNames_query database whitelist blacklist = TableNames_query database whitelist [] \<and>
   TableNames dbConn database whitelist blacklist = TableNames dbConn database whitelist [] \<and>
   fst (TableNames_query database whitelist blacklist) =
     ''select name from system.tables where database = ? and database <> 'system'' @ [CHR 0x27] @
     '' and name in ('' @ drop 1 (Repeat '',?'' (length whitelist)) @ '');'' \<and>
   snd (TableNames_query database whitelist blacklist) = database # whitelist \<and>
   (\<forall>b \<in> set blacklist. b \<noteq> database \<and> b \<notin> set whitelist \<longrightarrow>
      b \<notin> set (snd (TableNames_query database whitelist blacklist)))"
  by (simp add: TableNames_query_def TableNames_def)

theorem TableNames_whitelist_only_witness:
  "[''visits''] \<noteq> [] \<and> [''hits''] \<noteq> [] \<and>
   TableNames_query ''default'' [''visits''] [''hits''] =
     (''select name from system.tables where database = ? and database <> 'system'' @ [CHR 0x27] @
      '' and name in (?);'', [''default'', ''visits'']) \<and>
   ''hits'' \<notin> set (snd (TableNames_query ''default'' [''visits''] [''hits'']))"
  using TableNames_whitelist_only
    [of "[''visits'']" "[''hits'']" "''default''" "\<lambda>query args. Inr []"]
  by (simp add: Repeat_def TableNames_query_def)

text \<open>
  Claim C7: when the lookup of \<open>PrimaryKeyInfo\<close> finds no row for the table, the result is
  no primary key and no error, for every database and table name.
\<close>

theorem PrimaryKeyInfo_no_row:
  "dbConn PrimaryKeyInfo_query [table, database] = Inr [] \<Longrightarrow>
   PrimaryKeyInfo dbConn database table = Inr None"
  by (simp add: PrimaryKeyInfo_def QueryRow_def)

theorem PrimaryKeyInfo_no_row_witness:
  "(\<lambda>query args. Inr []) PrimaryKeyInfo_query [''visits'', ''default''] =
     (Inr [] :: error + row list) \<and>
   PrimaryKeyInfo (\<lambda>query args. Inr []) ''default'' ''visits'' = Inr None"
  using PrimaryKeyInfo_no_row [of "\<lambda>query args. Inr []" "''visits''" "''default''"]
  by simp

section \<open>Properties of the connection string\<close>

lemma shouldEscape_reserved:
  "shouldEscape CHR ''?'' mode" "shouldEscape CHR ''&'' encodeQueryComponent"
  "shouldEscape CHR ''='' encodeQueryComponent"
  by (cases mode; simp add: shouldEscape_def isAlnum_def inRange_def less_eq_char_def)+

lemma upperhex_nth: "n < 16 \<Longrightarrow> upperhex ! n \<in> set upperhex"
proof -
  assume "n < 16"
  moreover have "length upperhex = 16" by (simp add: upperhex_def)
  ultimately show ?thesis using nth_mem [of n upperhex] by simp
qed

lemma escape_byte_chars:
  assumes "x \<in> set (escape_byte c mode)"
  shows "x = c \<and> \<not> shouldEscape c mode \<or> x \<in> set (''+%'' @ upperhex)"
proof -
  have "(of_char c :: nat) div 16 < 16"
    by (rule less_mult_imp_div_less) simp
  then have hi: "upperhex ! (of_char c div 16) \<in> set upperhex" by (rule upperhex_nth)
  have lo: "upperhex ! (of_char c mod 16) \<in> set upperhex" by (rule upperhex_nth) simp
  from assms hi lo show ?thesis
    by (auto simp: escape_byte_def split: if_splits)
qed

lemma escape_chars:
  assumes "x \<in> set (escape s mode)"
  shows "\<not> shouldEscape x mode \<or> x \<in> set (''+%'' @ upperhex)"
proof -
  from assms obtain c where "x \<in> set (escape_byte c mode)"
    by (auto simp: escape_def)
  from escape_byte_chars [OF this] show ?thesis by blast
qed

lemma escape_host_no_question: "CHR ''?'' \<notin> set (escape s encodeHost)"
  using escape_chars [of "CHR ''?''" s encodeHost] shouldEscape_reserved(1) [of encodeHost]
  by (auto simp: upperhex_def)

lemma QueryEscape_no_amp: "CHR ''&'' \<notin> set (QueryEscape s)"
  using escape_chars [of "CHR ''&''" s encodeQueryComponent] shouldEscape_reserved(2)
  by (auto simp: upperhex_def QueryEscape_def)

lemma QueryEscape_no_eq: "CHR ''='' \<notin> set (QueryEscape s)"
  using escape_chars [of "CHR ''=''" s encodeQueryComponent] shouldEscape_reserved(3)
  by (auto simp: upperhex_def QueryEscape_def)

lemma query_param_pair:
  "CHR ''='' \<notin> set k \<Longrightarrow> query_param (k @ ''='' @ x) = (k, x)"
  by (simp add: query_param_def takeWhile_until dropWhile_until)

lemma query_component_after:
  "CHR ''?'' \<notin> set pre \<Longrightarrow> query_component (pre @ ''?'' @ q) = q"
  by (simp add: query_component_def dropWhile_until)

lemma ClickhouseBuildQueryString_shape:
  assumes "Values_Encode (ClickhouseBuildQueryString_values config) \<noteq> []"
  shows "ClickhouseBuildQueryString config =
    (''tcp://'' @
     escape (ClickhouseDriverConfig.Host config @ '':'' @ Itoa (Port config)) encodeHost) @
    ''?'' @ Values_Encode (ClickhouseBuildQueryString_values config)"
  using assms by (simp add: ClickhouseBuildQueryString_def URL_String_def)

lemma query_component_ClickhouseBuildQueryString:
  assumes "Values_Encode (ClickhouseBuildQueryString_values config) \<noteq> []"
  shows "query_component (ClickhouseBuildQueryString config) =
    Values_Encode (ClickhouseBuildQueryString_values config)"
proof -
  have "CHR ''?'' \<notin> set (''tcp://'' @
     escape (ClickhouseDriverConfig.Host config @ '':'' @ Itoa (Port config)) encodeHost)"
    using escape_host_no_question by simp
  from query_component_after [OF this] ClickhouseBuildQueryString_shape [OF assms]
  show ?thesis by simp
qed

lemmas escape_eval =
  QueryEscape_def escape_def escape_byte_def shouldEscape_def isAlnum_def inRange_def
  less_eq_char_def

lemma QueryEscape_config_keys: "k \<in> set config_keys \<Longrightarrow> QueryEscape k = k"
  by (auto simp: config_keys_def escape_eval)

lemma QueryEscape_FormatBool: "QueryEscape (FormatBool b) = FormatBool b"
  by (cases b) (simp_all add: FormatBool_def escape_eval)

lemma FormatBool_no_amp: "CHR ''&'' \<notin> set (FormatBool b)"
  by (simp add: FormatBool_def)

text \<open>
  Claim C8: for every configuration whose optional fields are empty (no user name, no
  password, no alternate hosts, no connection-open strategy, read and write timeouts zero,
  block size not positive), the query component of the connection string has exactly the
  three parameters \<open>database\<close>, \<open>debug\<close> and \<open>no_delay\<close> (the order \<open>Encode\<close> writes them
  in), and the values \<open>q\<close> holds exactly the keys \<open>database\<close>, \<open>no_delay\<close> and \<open>debug\<close>.
\<close>

theorem ClickhouseBuildQueryString_defaults:
  "Username config = [] \<Longrightarrow> Password config = [] \<Longrightarrow> AltHosts config = [] \<Longrightarrow>
   ConnectionOpenStrategy config = [] \<Longrightarrow> ReadTimeout config = 0 \<Longrightarrow>
   WriteTimeout config = 0 \<Longrightarrow> BlockSize config \<le> 0 \<Longrightarrow>
   map fst (ClickhouseBuildQueryString_values config) = [''database'', ''no_delay'', ''debug''] \<and>
   query_params (ClickhouseBuildQueryString config) =
     [(''database'', QueryEscape (Database config)),
      (''debug'', FormatBool (Debug config)),
      (''no_delay'', FormatBool (\<not> Nagle config))] \<and>
   query_component (ClickhouseBuildQueryString config) =
     ''database='' @ QueryEscape (Database config) @
     ''&debug='' @ FormatBool (Debug config) @
     ''&no_delay='' @ FormatBool (\<not> Nagle config)"
proof -
  assume opt: "Username config = []" "Password config = []" "AltHosts config = []"
    "ConnectionOpenStrategy config = []" "ReadTimeout config = 0" "WriteTimeout config = 0"
    "BlockSize config \<le> 0"
  let ?db = "''database='' @ QueryEscape (Database config)"
  let ?dbg = "''debug='' @ FormatBool (Debug config)"
  let ?nd = "''no_delay='' @ FormatBool (\<not> Nagle config)"
  have v: "ClickhouseBuildQueryString_values config =
      [(''database'', [Database config]),
       (''no_delay'', [FormatBool (\<not> Nagle config)]),
       (''debug'', [FormatBool (Debug config)])]"
    using opt by (simp add: ClickhouseBuildQueryString_values_def Values_Set_def)
  have keys: "sort [''database'', ''no_delay'', ''debug''] = [''database'', ''debug'', ''no_delay'']"
    by (simp add: less_eq_char_def)
  have esc: "QueryEscape ''database'' = ''database''" "QueryEscape ''debug'' = ''debug''"
    "QueryEscape ''no_delay'' = ''no_delay''"
    by (simp_all add: QueryEscape_config_keys config_keys_def)
  have enc: "Values_Encode (ClickhouseBuildQueryString_values config) = Join [?db, ?dbg, ?nd] ''&''"
    by (simp add: v Values_Encode_def keys esc QueryEscape_FormatBool)
  then have ne: "Values_Encode (ClickhouseBuildQueryString_values config) \<noteq> []" by simp
  have qc: "query_component (ClickhouseBuildQueryString config) = Join [?db, ?dbg, ?nd] ''&''"
    using query_component_ClickhouseBuildQueryString [OF ne] enc by simp
  have "\<forall>x \<in> set [?db, ?dbg, ?nd]. CHR ''&'' \<notin> set x"
    by (simp add: QueryEscape_no_amp FormatBool_no_amp)
  then have sp: "Split (Join [?db, ?dbg, ?nd] ''&'') CHR ''&'' = [?db, ?dbg, ?nd]"
    by (intro Split_Join) simp_all
  have "query_params (ClickhouseBuildQueryString config) = map query_param [?db, ?dbg, ?nd]"
    by (simp only: query_params_def qc sp)
  also have "\<dots> = [(''database'', QueryEscape (Database config)),
      (''debug'', FormatBool (Debug config)),
      (''no_delay'', FormatBool (\<not> Nagle config))]"
    using query_param_pair [of "''database''" "QueryEscape (Database config)"]
      query_param_pair [of "''debug''" "FormatBool (Debug config)"]
      query_param_pair [of "''no_delay''" "FormatBool (\<not> Nagle config)"]
    by simp
  finally have qp: "query_params (ClickhouseBuildQueryString config) =
     [(''database'', QueryEscape (Database config)),
      (''debug'', FormatBool (Debug config)),
      (''no_delay'', FormatBool (\<not> Nagle config))]" .
  from v qp qc show ?thesis by simp
qed

theorem ClickhouseBuildQueryString_defaults_witness:
  "Username example_config = [] \<and> Password example_config = [] \<and>
   AltHosts example_config = [] \<and> ConnectionOpenStrategy example_config = [] \<and>
   ReadTimeout example_config = 0 \<and> WriteTimeout example_config = 0 \<and>
   BlockSize example_config \<le> 0 \<and>
   ClickhouseBuildQueryString example_config =
     ''tcp://localhost:9000?database=my+db&debug=false&no_delay=false'' \<and>
   query_params (ClickhouseBuildQueryString example_config) =
     [(''database'', ''my+db''), (''debug'', ''false''), (''no_delay'', ''false'')]"
proof -
  have opt: "Username example_config = []" "Password example_config = []"
    "AltHosts example_config = []" "ConnectionOpenStrategy example_config = []"
    "ReadTimeout example_config = 0" "WriteTimeout example_config = 0"
    "BlockSize example_config \<le> 0"
    by (simp_all add: example_config_def)
  have url: "ClickhouseBuildQueryString example_config =
     ''tcp://localhost:9000?database=my+db&debug=false&no_delay=false''"
    by (simp add: ClickhouseBuildQueryString_def example_config_def
        ClickhouseBuildQueryString_values_def Values_Set_def Values_Encode_def URL_String_def
        Itoa_def utoa.simps FormatBool_def upperhex_def escape_eval)
  have "QueryEscape (Database example_config) = ''my+db''"
    by (simp add: example_config_def escape_eval)
  with opt url ClickhouseBuildQueryString_defaults [OF opt] show ?thesis
    by (simp add: FormatBool_def example_config_def)
qed

lemma update_entries:
  "p \<in> set (AList.update k v al) \<Longrightarrow> p = (k, v) \<or> p \<in> set al"
  by (induction al) (auto split: if_splits)

lemma single_valued_Nil: "single_valued []"
  by (simp add: single_valued_def)

lemma single_valued_Set:
  "single_valued v \<Longrightarrow> key \<in> set config_keys \<Longrightarrow> single_valued (Values_Set v key x)"
  using update_entries [of _ key "[x]" v]
  by (fastforce simp: single_valued_def Values_Set_def distinct_update)

lemma values_chain:
  "ClickhouseBuildQueryString_values config =
    Values_Set
     (Set_when (BlockSize config > 0)
       (Set_when (ConnectionOpenStrategy config \<noteq> [])
         (Set_when (length (AltHosts config) > 0)
           (Values_Set
             (Set_when (WriteTimeout config \<noteq> 0)
               (Set_when (ReadTimeout config \<noteq> 0)
                 (Values_Set
                   (Set_when (Password config \<noteq> [])
                     (Set_when (Username config \<noteq> []) [] ''username'' (Username config))
                     ''password'' (Password config))
                   ''database'' (Database config))
                 ''read_timeout'' (Itoa (ReadTimeout config)))
               ''write_timeout'' (Itoa (WriteTimeout config)))
             ''no_delay'' (FormatBool (\<not> Nagle config)))
           ''alt_hosts'' (Join (AltHosts config) '',''))
         ''connection_open_strategy'' (ConnectionOpenStrategy config))
       ''block_size'' (Itoa (BlockSize config)))
     ''debug'' (FormatBool (Debug config))"
  by (simp only: ClickhouseBuildQueryString_values_def Let_def Set_when_def)

lemma single_valued_when:
  "single_valued v \<Longrightarrow> key \<in> set config_keys \<Longrightarrow> single_valued (Set_when b v key x)"
  by (simp add: single_valued_Set Set_when_def)

lemma single_valued_config: "single_valued (ClickhouseBuildQueryString_values config)"
  unfolding values_chain
  by (intro single_valued_Set single_valued_when single_valued_Nil)
     (simp_all add: config_keys_def)

lemma map_of_Set_same: "map_of (Values_Set v key x) key = Some [x]"
  by (simp add: Values_Set_def update_conv')

lemma map_of_Set_other: "key \<noteq> k \<Longrightarrow> map_of (Values_Set v key x) k = map_of v k"
  by (simp add: Values_Set_def update_conv')

lemma map_of_when_other: "key \<noteq> k \<Longrightarrow> map_of (Set_when b v key x) k = map_of v k"
  by (simp add: Set_when_def map_of_Set_other)

lemma no_delay_value:
  "map_of (ClickhouseBuildQueryString_values config) ''no_delay'' =
     Some [FormatBool (\<not> Nagle config)]"
  unfolding values_chain
  by (simp add: map_of_Set_same map_of_Set_other map_of_when_other)

lemma Values_Encode_pieces: "Values_Encode v = Join (Encode_pieces v) ''&''"
  by (simp add: Values_Encode_def Encode_pieces_def)

lemma Encode_pieces_set:
  assumes "single_valued v"
  shows "set (Encode_pieces v) = (\<lambda>(k, vs). k @ ''='' @ QueryEscape (hd vs)) ` set v"
proof -
  from assms have d: "distinct (map fst v)"
    and s: "\<And>k vs. (k, vs) \<in> set v \<Longrightarrow> k \<in> set config_keys \<and> length vs = 1"
    by (auto simp: single_valued_def)
  have one: "\<And>vs :: string list. length vs = 1 \<Longrightarrow> vs = [hd vs]"
    by (case_tac vs) auto
  show ?thesis
  proof (intro set_eqI iffI)
    fix p assume "p \<in> set (Encode_pieces v)"
    then obtain k x where k: "k \<in> fst ` set v"
      and x: "x \<in> set (case map_of v k of None \<Rightarrow> [] | Some vs \<Rightarrow> vs)"
      and p: "p = QueryEscape k @ ''='' @ QueryEscape x"
      by (auto simp: Encode_pieces_def)
    from x obtain vs where m: "map_of v k = Some vs" and xv: "x \<in> set vs"
      by (cases "map_of v k") auto
    from m have mem: "(k, vs) \<in> set v" by (rule map_of_SomeD)
    from s [OF mem] one have "vs = [hd vs]" and kk: "QueryEscape k = k"
      by (simp_all add: QueryEscape_config_keys)
    with xv have "x = hd vs" by (metis empty_iff empty_set set_ConsD)
    with p kk mem show "p \<in> (\<lambda>(k, vs). k @ ''='' @ QueryEscape (hd vs)) ` set v"
      by force
  next
    fix p assume "p \<in> (\<lambda>(k, vs). k @ ''='' @ QueryEscape (hd vs)) ` set v"
    then obtain k vs where mem: "(k, vs) \<in> set v" and p: "p = k @ ''='' @ QueryEscape (hd vs)"
      by auto
    from s [OF mem] one have vs: "vs = [hd vs]" and kk: "QueryEscape k = k"
      by (simp_all add: QueryEscape_config_keys)
    from d mem have m: "map_of v k = Some vs" by simp
    have "hd vs \<in> set vs" using vs by (metis list.set_intros(1))
    moreover have "k \<in> fst ` set v" using mem by force
    ultimately show "p \<in> set (Encode_pieces v)"
      using m p kk by (force simp: Encode_pieces_def)
  qed
qed

lemma config_keys_plain: "k \<in> set config_keys \<Longrightarrow> CHR ''&'' \<notin> set k \<and> CHR ''='' \<notin> set k"
  by (auto simp: config_keys_def)

lemma query_params_config:
  "set (query_params (ClickhouseBuildQueryString config)) =
     (\<lambda>(k, vs). (k, QueryEscape (hd vs))) ` set (ClickhouseBuildQueryString_values config)"
proof -
  let ?v = "ClickhouseBuildQueryString_values config"
  let ?piece = "\<lambda>(k, vs). k @ ''='' @ QueryEscape (hd vs)"
  have sv: "single_valued ?v" by (rule single_valued_config)
  then have keys: "\<And>k vs. (k, vs) \<in> set ?v \<Longrightarrow> k \<in> set config_keys"
    by (auto simp: single_valued_def)
  have pieces: "set (Encode_pieces ?v) = ?piece ` set ?v"
    by (rule Encode_pieces_set [OF sv])
  have "(''no_delay'', [FormatBool (\<not> Nagle config)]) \<in> set ?v"
    using no_delay_value [of config] by (rule map_of_SomeD)
  then have some: "?piece (''no_delay'', [FormatBool (\<not> Nagle config)]) \<in> set (Encode_pieces ?v)"
    unfolding pieces by (rule imageI)
  then have ne: "Encode_pieces ?v \<noteq> []" by auto
  have "Join (Encode_pieces ?v) ''&'' \<noteq> []"
    by (rule Join_nonempty [OF some]) simp
  then have enc: "Values_Encode ?v \<noteq> []" by (simp add: Values_Encode_pieces)
  have noamp: "\<forall>p \<in> set (Encode_pieces ?v). CHR ''&'' \<notin> set p"
    unfolding pieces using keys config_keys_plain QueryEscape_no_amp by fastforce
  have "query_params (ClickhouseBuildQueryString config) = map query_param (Encode_pieces ?v)"
    using query_component_ClickhouseBuildQueryString [OF enc] Split_Join [OF ne noamp]
    by (simp add: query_params_def Values_Encode_pieces)
  then have "set (query_params (ClickhouseBuildQueryString config)) =
      query_param ` ?piece ` set ?v"
    by (simp add: pieces)
  also have "\<dots> = (\<lambda>(k, vs). (k, QueryEscape (hd vs))) ` set ?v"
  proof -
    have "\<And>e. e \<in> set ?v \<Longrightarrow> query_param (?piece e) = (\<lambda>(k, vs). (k, QueryEscape (hd vs))) e"
      using keys config_keys_plain query_param_pair by (auto split: prod.splits)
    then show ?thesis by (force simp: image_image)
  qed
  finally show ?thesis .
qed

text \<open>
  Claim C9: for every configuration, the \<open>no_delay\<close> parameter of the connection string
  is the text of the negation of the configuration's Nagle flag, \<open>false\<close> when Nagle is
  set and \<open>true\<close> when it is not. This holds of the value stored under \<open>no_delay\<close> before
  encoding and of the parameter read back from the query component, where it is the only
  \<open>no_delay\<close> parameter.
\<close>

theorem no_delay_negates_Nagle:
  "map_of (ClickhouseBuildQueryString_values config) ''no_delay'' =
     Some [FormatBool (\<not> Nagle config)] \<and>
   map_of (query_params (ClickhouseBuildQueryString config)) ''no_delay'' =
     Some (FormatBool (\<not> Nagle config)) \<and>
   {y. (''no_delay'', y) \<in> set (query_params (ClickhouseBuildQueryString config))} =
     {FormatBool (\<not> Nagle config)} \<and>
   FormatBool (\<not> Nagle config) = (if Nagle config then ''false'' else ''true'')"
proof -
  let ?v = "ClickhouseBuildQueryString_values config"
  let ?nd = "FormatBool (\<not> Nagle config)"
  let ?qp = "query_params (ClickhouseBuildQueryString config)"
  have d: "distinct (map fst ?v)"
    using single_valued_config [of config] by (simp add: single_valued_def)
  have nd: "map_of ?v ''no_delay'' = Some [?nd]" by (rule no_delay_value)
  have only: "{y. (''no_delay'', y) \<in> set ?qp} = {?nd}"
  proof (intro set_eqI iffI)
    fix y assume "y \<in> {y. (''no_delay'', y) \<in> set ?qp}"
    then obtain vs where "(''no_delay'', vs) \<in> set ?v" and y: "y = QueryEscape (hd vs)"
      by (auto simp: query_params_config)
    with d have "map_of ?v ''no_delay'' = Some vs" by simp
    with nd y show "y \<in> {?nd}" by (simp add: QueryEscape_FormatBool)
  next
    fix y assume "y \<in> {?nd}"
    moreover have "(''no_delay'', [?nd]) \<in> set ?v" using nd by (rule map_of_SomeD)
    ultimately show "y \<in> {y. (''no_delay'', y) \<in> set ?qp}"
      by (force simp: query_params_config QueryEscape_FormatBool)
  qed
  then have "(''no_delay'', ?nd) \<in> set ?qp" by blast
  then obtain y where m: "map_of ?qp ''no_delay'' = Some y"
    using weak_map_of_SomeI by fastforce
  then have "(''no_delay'', y) \<in> set ?qp" by (rule map_of_SomeD)
  with only have "y = ?nd" by blast
  with m nd only show ?thesis by (simp add: FormatBool_def)
qed

theorem no_delay_negates_Nagle_witness:
  "map_of (query_params (ClickhouseBuildQueryString example_config)) ''no_delay'' = Some ''false'' \<and>
   Nagle example_config"
  using no_delay_negates_Nagle [of example_config]
  by (simp add: example_config_def)

end
